theory Spec2Isabelle
  imports Complex_Main "HOL-Library.Product_Lexorder"
begin

section \<open>Grid world (environment.py)\<close>

text \<open>
  A grid position is a Python tuple \<open>(x, y)\<close> of unbounded integers. The exceptions
  the modelled code can raise are values of \<open>error\<close>; a computation that may raise
  returns \<open>error + 'a\<close>.
\<close>

type_synonym pos = "int \<times> int"

datatype error = IndexError | KeyError | ValueError

text \<open>
  The fields of \<open>Environment\<close> that the decision engine reads. \<open>road_map\<close> is the
  list of rows (\<open>road_map[y][x]\<close>), \<open>obstacles\<close> is the Python set of obstacle cells.
\<close>

record environment =
  grid_width :: int
  grid_height :: int
  road_map :: "int list list"
  start_pos :: pos
  destination :: pos
  obstacles :: "pos set"

text \<open>
  \<open>road_map[y][x]\<close> is only evaluated behind the bounds test \<open>0 <= x < grid_width and
  0 <= y < grid_height\<close>, so both indices are non-negative there; a row or column missing
  from the list raises IndexError.
\<close>

definition road_cell :: "environment \<Rightarrow> pos \<Rightarrow> error + int" where
  "road_cell env p =
     (case p of (x, y) \<Rightarrow>
        if nat y < length (road_map env) then
          (if nat x < length (road_map env ! nat y)
           then Inr (road_map env ! nat y ! nat x)
           else Inl IndexError)
        else Inl IndexError)"

definition is_valid_position :: "environment \<Rightarrow> pos \<Rightarrow> error + bool" where
  "is_valid_position env p =
     (case p of (x, y) \<Rightarrow>
        if 0 \<le> x \<and> x < grid_width env \<and> 0 \<le> y \<and> y < grid_height env then
          (case road_cell env p of
             Inl e \<Rightarrow> Inl e
           | Inr c \<Rightarrow> Inr (c = 1 \<and> p \<notin> obstacles env))
        else Inr False)"

definition is_road :: "environment \<Rightarrow> pos \<Rightarrow> error + bool" where
  "is_road env p =
     (case p of (x, y) \<Rightarrow>
        if 0 \<le> x \<and> x < grid_width env \<and> 0 \<le> y \<and> y < grid_height env then
          (case road_cell env p of
             Inl e \<Rightarrow> Inl e
           | Inr c \<Rightarrow> Inr (c = 1))
        else Inr False)"

text \<open>
  The constructor builds \<open>road_map\<close> with \<open>grid_height\<close> rows of \<open>grid_width\<close> cells
  and nothing changes its shape afterwards; \<open>env_wf\<close> records that class invariant.
\<close>

definition env_wf :: "environment \<Rightarrow> bool" where
  "env_wf env \<longleftrightarrow>
     int (length (road_map env)) = max 0 (grid_height env) \<and>
     (\<forall>row \<in> set (road_map env). int (length row) = max 0 (grid_width env))"

text \<open>The pure reading of \<open>is_valid_position\<close>, used to state properties of paths.\<close>

definition valid_cell :: "environment \<Rightarrow> pos \<Rightarrow> bool" where
  "valid_cell env p \<longleftrightarrow> is_valid_position env p = Inr True"

section \<open>Path planner (pathfinding.py)\<close>

definition heuristic :: "pos \<Rightarrow> pos \<Rightarrow> int" where
  "heuristic pos1 pos2 = \<bar>fst pos1 - fst pos2\<bar> + \<bar>snd pos1 - snd pos2\<bar>"

text \<open>
  \<open>get_neighbors\<close>: the loop over the four deltas, appending each valid neighbour in
  the order up, down, right, left of the source.
\<close>

fun neighbors_loop :: "environment \<Rightarrow> pos \<Rightarrow> pos list \<Rightarrow> pos list \<Rightarrow> error + pos list" where
  "neighbors_loop env p [] neighbors = Inr neighbors"
| "neighbors_loop env p (d # ds) neighbors =
     (let new_pos = (fst p + fst d, snd p + snd d) in
      case is_valid_position env new_pos of
        Inl e \<Rightarrow> Inl e
      | Inr b \<Rightarrow> neighbors_loop env p ds (if b then neighbors @ [new_pos] else neighbors))"

definition deltas :: "pos list" where
  "deltas = [(0, 1), (0, -1), (1, 0), (-1, 0)]"

definition get_neighbors :: "environment \<Rightarrow> pos \<Rightarrow> error + pos list" where
  "get_neighbors env p = neighbors_loop env p deltas []"

text \<open>
  \<open>reconstruct_path\<close> follows the back-pointers while the current cell has one. On a
  cyclic \<open>came_from\<close> the Python loop never ends; the model then yields \<open>None\<close>.
\<close>

partial_function (option) reconstruct_loop ::
  "(pos \<rightharpoonup> pos) \<Rightarrow> pos \<Rightarrow> pos list \<Rightarrow> pos list option" where
  "reconstruct_loop cf current path =
     (case cf current of
        None \<Rightarrow> Some path
      | Some c \<Rightarrow> reconstruct_loop cf c (path @ [c]))"

definition reconstruct_path :: "(pos \<rightharpoonup> pos) \<Rightarrow> pos \<Rightarrow> pos list option" where
  "reconstruct_path cf current = map_option rev (reconstruct_loop cf current [current])"

text \<open>
  The local variables of \<open>find_path\<close>. \<open>open_set\<close> is the heapq list of
  \<open>(f, cell)\<close> tuples. The search only pops the least tuple (Python compares tuples
  lexicographically: \<open>f\<close>, then \<open>x\<close>, then \<open>y\<close>), pushes, and scans for membership, so
  the heap is modelled as the list of its entries with \<open>heappop\<close> removing the least one.
\<close>

type_synonym entry = "int \<times> pos"

record search_state =
  open_set :: "entry list"
  came_from :: "pos \<rightharpoonup> pos"
  g_score :: "pos \<rightharpoonup> int"
  f_score :: "pos \<rightharpoonup> int"

fun heap_min :: "entry \<Rightarrow> entry list \<Rightarrow> entry" where
  "heap_min m [] = m"
| "heap_min m (e # es) = heap_min (min m e) es"

definition heappush :: "entry list \<Rightarrow> entry \<Rightarrow> entry list" where
  "heappush h item = h @ [item]"

text \<open>The body of \<open>for neighbor in self.get_neighbors(current)\<close>, for one neighbour.\<close>

definition relax :: "pos \<Rightarrow> pos \<Rightarrow> search_state \<Rightarrow> pos \<Rightarrow> error + search_state" where
  "relax goal current st neighbor =
     (case g_score st current of
        None \<Rightarrow> Inl KeyError
      | Some gc \<Rightarrow>
          (let tentative_g_score = gc + 1 in
           if (case g_score st neighbor of None \<Rightarrow> True | Some gn \<Rightarrow> tentative_g_score < gn)
           then
             (let f = tentative_g_score + heuristic neighbor goal;
                  st1 = st\<lparr>came_from := (came_from st)(neighbor \<mapsto> current),
                           g_score := (g_score st)(neighbor \<mapsto> tentative_g_score),
                           f_score := (f_score st)(neighbor \<mapsto> f)\<rparr>
              in if \<not> list_ex (\<lambda>item. neighbor = snd item) (open_set st1)
                 then Inr (st1\<lparr>open_set := heappush (open_set st1) (f, neighbor)\<rparr>)
                 else Inr st1)
           else Inr st))"

fun relax_all :: "pos \<Rightarrow> pos \<Rightarrow> pos list \<Rightarrow> search_state \<Rightarrow> error + search_state" where
  "relax_all goal current [] st = Inr st"
| "relax_all goal current (n # ns) st =
     (case relax goal current st n of
        Inl e \<Rightarrow> Inl e
      | Inr st' \<Rightarrow> relax_all goal current ns st')"

text \<open>
  The \<open>while open_set\<close> loop. \<open>None\<close> stands for a run that never returns,
  \<open>Some (Inl e)\<close> for a raised exception and \<open>Some (Inr path)\<close> for a returned list.
\<close>

partial_function (option) search_loop ::
  "environment \<Rightarrow> pos \<Rightarrow> search_state \<Rightarrow> (error + pos list) option" where
  "search_loop env goal st =
     (case open_set st of
        [] \<Rightarrow> Some (Inr [])
      | e # es \<Rightarrow>
          (case heap_min e es of
             (current_f, current) \<Rightarrow>
               (let st1 = st\<lparr>open_set := remove1 (current_f, current) (open_set st)\<rparr> in
                if current = goal
                then map_option Inr (reconstruct_path (came_from st1) current)
                else
                  (case get_neighbors env current of
                     Inl err \<Rightarrow> Some (Inl err)
                   | Inr ns \<Rightarrow>
                       (case relax_all goal current ns st1 of
                          Inl err \<Rightarrow> Some (Inl err)
                        | Inr st2 \<Rightarrow> search_loop env goal st2)))))"

definition init_state :: "pos \<Rightarrow> pos \<Rightarrow> search_state" where
  "init_state start goal =
     \<lparr>open_set = heappush [] (0, start),
      came_from = Map.empty,
      g_score = [start \<mapsto> 0],
      f_score = [start \<mapsto> heuristic start goal]\<rparr>"

definition find_path :: "environment \<Rightarrow> pos \<Rightarrow> pos \<Rightarrow> (error + pos list) option" where
  "find_path env start goal = search_loop env goal (init_state start goal)"

section \<open>Agent (agent.py)\<close>

text \<open>
  The state key built by \<open>get_state\<close>: destination-distance bucket, obstacle-distance
  bucket, heading, path-deviation bucket. Python floats are modelled as real numbers
  and \<open>math.sqrt\<close> as the real square root.
\<close>

type_synonym state_key = "int \<times> int \<times> int \<times> int"

record agent =
  position :: pos
  heading :: int
  q_table :: "state_key \<rightharpoonup> real list"
  epsilon :: real
  planned_path :: "pos list"
  total_reward :: int
  steps :: int
  prev_dest_dist :: "real option"
  last_replan_step :: int

text \<open>The attributes that \<open>__init__\<close> sets once and nothing assigns again.\<close>

definition learning_rate :: real where
  "learning_rate = 0.1"

definition discount_factor :: real where
  "discount_factor = 0.95"

definition actions :: "int list" where
  "actions = [0, 1, 2, 3]"

definition directions :: "pos list" where
  "directions = [(1, 0), (0, 1), (-1, 0), (0, -1)]"

definition max_steps :: int where
  "max_steps = 500"

definition replan_on_deviation_threshold :: real where
  "replan_on_deviation_threshold = 2.0"

definition replan_every_n_steps :: int where
  "replan_every_n_steps = 30"

definition init_agent :: "environment \<Rightarrow> agent" where
  "init_agent env =
     \<lparr>position = start_pos env, heading = 0, q_table = Map.empty, epsilon = 0.3,
      planned_path = [], total_reward = 0, steps = 0, prev_dest_dist = None,
      last_replan_step = 0\<rparr>"

text \<open>
  Python list subscript: an index below zero counts from the end, an index outside
  the list raises IndexError.
\<close>

definition subscript :: "'a list \<Rightarrow> int \<Rightarrow> error + 'a" where
  "subscript xs i =
     (if 0 \<le> i \<and> i < int (length xs) then Inr (xs ! nat i)
      else if i < 0 \<and> - int (length xs) \<le> i then Inr (xs ! nat (int (length xs) + i))
      else Inl IndexError)"

definition subscript_store :: "'a list \<Rightarrow> int \<Rightarrow> 'a \<Rightarrow> error + 'a list" where
  "subscript_store xs i v =
     (if 0 \<le> i \<and> i < int (length xs) then Inr (xs[nat i := v])
      else if i < 0 \<and> - int (length xs) \<le> i then Inr (xs[nat (int (length xs) + i) := v])
      else Inl IndexError)"

text \<open>\<open>max(xs)\<close> raises ValueError on an empty list.\<close>

definition list_max :: "real list \<Rightarrow> error + real" where
  "list_max xs = (case xs of [] \<Rightarrow> Inl ValueError | x # rest \<Rightarrow> Inr (fold max rest x))"

text \<open>\<open>xs.index(v)\<close>: the first index holding \<open>v\<close>, ValueError when there is none.\<close>

fun list_index :: "real list \<Rightarrow> real \<Rightarrow> error + nat" where
  "list_index [] v = Inl ValueError"
| "list_index (x # xs) v =
     (if x = v then Inr 0
      else case list_index xs v of Inl e \<Rightarrow> Inl e | Inr i \<Rightarrow> Inr (Suc i))"

definition euclid :: "pos \<Rightarrow> pos \<Rightarrow> real" where
  "euclid a b = sqrt (real_of_int ((fst a - fst b)\<^sup>2 + (snd a - snd b)\<^sup>2))"

text \<open>\<open>int(x)\<close> on a float truncates towards zero.\<close>

definition trunc :: "real \<Rightarrow> int" where
  "trunc r = (if 0 \<le> r then \<lfloor>r\<rfloor> else \<lceil>r\<rceil>)"

text \<open>
  \<open>get_obstacles_in_radius\<close> lists the obstacles within the radius with their
  distances, in the iteration order of the Python set. \<open>get_state\<close> only asks whether
  the list is empty and for its least distance, so the model keeps the set of distances.
\<close>

definition get_obstacles_in_radius :: "environment \<Rightarrow> pos \<Rightarrow> real \<Rightarrow> (pos \<times> real) set" where
  "get_obstacles_in_radius env p radius =
     (\<lambda>ob. (ob, euclid p ob)) ` {ob \<in> obstacles env. euclid p ob \<le> radius}"

definition get_state :: "environment \<Rightarrow> agent \<Rightarrow> state_key" where
  "get_state env a =
     (let dest_dist = euclid (position a) (destination env);
          obs = get_obstacles_in_radius env (position a) 5;
          min_obstacle_dist = (if obs = {} then 5 else Min (snd ` obs));
          path_dev = (if planned_path a = [] then 0
                      else min (Min ((\<lambda>q. euclid (position a) q) ` set (planned_path a))) 3)
      in (min (trunc dest_dist) 20, min (trunc min_obstacle_dist) 5, heading a, trunc path_dev))"

text \<open>
  The two draws of the process-wide random source that the fallback of
  \<open>choose_action\<close> may consume in a tick: \<open>random.random()\<close> and the element
  \<open>random.choice(self.actions)\<close> picks, given by its index.
\<close>

record draws =
  uniform :: real
  pick :: nat

definition q_fallback :: "agent \<Rightarrow> state_key \<Rightarrow> draws \<Rightarrow> error + int \<times> agent" where
  "q_fallback a state rnd =
     (let a1 = (if q_table a state = None
                then a\<lparr>q_table := (q_table a)(state \<mapsto> replicate (length actions) 0)\<rparr>
                else a)
      in if uniform rnd < epsilon a1
         then Inr (actions ! (pick rnd mod length actions), a1)
         else
           (case q_table a1 state of
              None \<Rightarrow> Inl KeyError
            | Some row \<Rightarrow>
                (case list_max row of
                   Inl e \<Rightarrow> Inl e
                 | Inr m \<Rightarrow>
                     (case list_index row m of
                        Inl e \<Rightarrow> Inl e
                      | Inr i \<Rightarrow>
                          (case subscript actions (int i) of
                             Inl e \<Rightarrow> Inl e
                           | Inr action \<Rightarrow> Inr (action, a1))))))"

definition choose_action :: "agent \<Rightarrow> state_key \<Rightarrow> draws \<Rightarrow> error + int \<times> agent" where
  "choose_action a state rnd =
     (case planned_path a of
        [] \<Rightarrow> q_fallback a state rnd
      | next_pos # rest \<Rightarrow>
          (let dx = fst next_pos - fst (position a);
               dy = snd next_pos - snd (position a)
           in if dx = 1 \<and> dy = 0 then Inr (if heading a = 0 then 0 else 1, a)
              else if dx = -1 \<and> dy = 0 then Inr (if heading a = 2 then 0 else 1, a)
              else if dx = 0 \<and> dy = 1 then Inr (if heading a = 1 then 0 else 1, a)
              else if dx = 0 \<and> dy = -1 then Inr (if heading a = 3 then 0 else 1, a)
              else q_fallback a state rnd))"

definition execute_action :: "environment \<Rightarrow> agent \<Rightarrow> int \<Rightarrow> error + bool \<times> agent" where
  "execute_action env a action =
     (let old_pos = position a in
      if action = 0 then
        (case subscript directions (heading a) of
           Inl e \<Rightarrow> Inl e
         | Inr d \<Rightarrow>
             (let new_pos = (fst (position a) + fst d, snd (position a) + snd d) in
              case is_valid_position env new_pos of
                Inl e \<Rightarrow> Inl e
              | Inr ok \<Rightarrow>
                  (let a1 = (if ok
                             then (let a0 = a\<lparr>position := new_pos\<rparr> in
                                   if planned_path a0 \<noteq> [] \<and> hd (planned_path a0) = new_pos
                                   then a0\<lparr>planned_path := tl (planned_path a0)\<rparr>
                                   else a0)
                             else a)
                   in Inr (position a1 \<noteq> old_pos, a1))))
      else if action = 1 then
        (let a1 = a\<lparr>heading := (heading a + 1) mod 4\<rparr> in Inr (position a1 \<noteq> old_pos, a1))
      else if action = 2 then
        (let a1 = a\<lparr>heading := (heading a - 1) mod 4\<rparr> in Inr (position a1 \<noteq> old_pos, a1))
      else if action = 3 then
        (case subscript directions (heading a) of
           Inl e \<Rightarrow> Inl e
         | Inr d \<Rightarrow>
             (let new_pos = (fst (position a) - fst d, snd (position a) - snd d) in
              case is_valid_position env new_pos of
                Inl e \<Rightarrow> Inl e
              | Inr ok \<Rightarrow>
                  (let a1 = (if ok then a\<lparr>position := new_pos\<rparr> else a)
                   in Inr (position a1 \<noteq> old_pos, a1))))
      else Inr (position a \<noteq> old_pos, a))"

text \<open>
  \<open>calculate_reward\<close> reads the position the agent now has; its three parameters
  \<open>old_state\<close>, \<open>action\<close> and \<open>moved\<close> are never used. It returns the reward, the
  terminal flag and the agent with the stored previous distance updated.
\<close>

definition calculate_reward :: "environment \<Rightarrow> agent \<Rightarrow> error + (int \<times> bool) \<times> agent" where
  "calculate_reward env a =
     (let reward = -1 in
      if position a = destination env then Inr ((reward + 100, True), a)
      else if position a \<in> obstacles env then Inr ((reward - 100, True), a)
      else
        (case is_road env (position a) of
           Inl e \<Rightarrow> Inl e
         | Inr on_road \<Rightarrow>
             (let reward1 = (if \<not> on_road then reward - 10 else reward);
                  dist = euclid (position a) (destination env);
                  reward2 = (if prev_dest_dist a \<noteq> None \<and> dist < the (prev_dest_dist a)
                             then reward1 + 2 else reward1)
              in Inr ((reward2, False), a\<lparr>prev_dest_dist := Some dist\<rparr>))))"

definition update_q_table ::
  "agent \<Rightarrow> state_key \<Rightarrow> int \<Rightarrow> int \<Rightarrow> state_key \<Rightarrow> error + agent" where
  "update_q_table a state action reward next_state =
     (let q1 = (if q_table a state = None
                then (q_table a)(state \<mapsto> replicate (length actions) 0)
                else q_table a);
          q2 = (if q1 next_state = None
                then q1(next_state \<mapsto> replicate (length actions) 0)
                else q1)
      in case q2 state of
           None \<Rightarrow> Inl KeyError
         | Some row \<Rightarrow>
             (case subscript row action of
                Inl e \<Rightarrow> Inl e
              | Inr current_q \<Rightarrow>
                  (case q2 next_state of
                     None \<Rightarrow> Inl KeyError
                   | Some next_row \<Rightarrow>
                       (case list_max next_row of
                          Inl e \<Rightarrow> Inl e
                        | Inr max_next_q \<Rightarrow>
                            (case subscript_store row action
                                    (current_q + learning_rate *
                                       (real_of_int reward + discount_factor * max_next_q - current_q)) of
                               Inl e \<Rightarrow> Inl e
                             | Inr row' \<Rightarrow> Inr (a\<lparr>q_table := q2(state \<mapsto> row')\<rparr>))))))"

text \<open>
  \<open>path = find_path(position, destination); if path: planned_path = deque(path[1:])\<close>,
  the replanning step shared by \<open>_maybe_replan\<close> and \<open>step\<close>.
\<close>

definition replan :: "environment \<Rightarrow> agent \<Rightarrow> (error + agent) option" where
  "replan env a =
     (case find_path env (position a) (destination env) of
        None \<Rightarrow> None
      | Some (Inl e) \<Rightarrow> Some (Inl e)
      | Some (Inr path) \<Rightarrow>
          Some (Inr (if path \<noteq> [] then a\<lparr>planned_path := tl path\<rparr> else a)))"

definition maybe_replan :: "environment \<Rightarrow> agent \<Rightarrow> (error + agent) option" where
  "maybe_replan env a =
     (if steps a - last_replan_step a \<ge> replan_every_n_steps then
        replan env (a\<lparr>last_replan_step := steps a\<rparr>)
      else if planned_path a \<noteq> [] then
        (if \<exists>p \<in> set (planned_path a). p \<in> obstacles env then
           (case replan env a of
              None \<Rightarrow> None
            | Some (Inl e) \<Rightarrow> Some (Inl e)
            | Some (Inr a1) \<Rightarrow> Some (Inr (a1\<lparr>last_replan_step := steps a1\<rparr>)))
         else
           (let min_dist = Min ((\<lambda>q. euclid (position a) q) ` set (planned_path a)) in
            if min_dist > replan_on_deviation_threshold then
              (case replan env a of
                 None \<Rightarrow> None
               | Some (Inl e) \<Rightarrow> Some (Inl e)
               | Some (Inr a1) \<Rightarrow> Some (Inr (a1\<lparr>last_replan_step := steps a1\<rparr>)))
            else Some (Inr a)))
      else Some (Inr a))"

text \<open>One tick. The result is the \<open>done\<close> flag and the agent after the tick.\<close>

definition tick_body :: "environment \<Rightarrow> draws \<Rightarrow> agent \<Rightarrow> error + bool \<times> agent" where
  "tick_body env rnd a =
     (let state = get_state env a in
      case choose_action a state rnd of
        Inl e \<Rightarrow> Inl e
      | Inr (action, a1) \<Rightarrow>
          (case execute_action env a1 action of
             Inl e \<Rightarrow> Inl e
           | Inr (moved, a2) \<Rightarrow>
               (case calculate_reward env a2 of
                  Inl e \<Rightarrow> Inl e
                | Inr ((reward, done), a3) \<Rightarrow>
                    (let a4 = a3\<lparr>total_reward := total_reward a3 + reward\<rparr>;
                         a5 = a4\<lparr>steps := steps a4 + 1\<rparr>;
                         next_state = get_state env a5
                     in case update_q_table a5 state action reward next_state of
                          Inl e \<Rightarrow> Inl e
                        | Inr a6 \<Rightarrow>
                            Inr (if steps a6 \<ge> max_steps then True else done, a6)))))"

definition step :: "environment \<Rightarrow> draws \<Rightarrow> agent \<Rightarrow> (error + bool \<times> agent) option" where
  "step env rnd a =
     (case (if steps a = 0
            then (case replan env a of
                    None \<Rightarrow> None
                  | Some (Inl e) \<Rightarrow> Some (Inl e)
                  | Some (Inr a1) \<Rightarrow>
                      Some (Inr (a1\<lparr>prev_dest_dist :=
                                       Some (euclid (position a1) (destination env))\<rparr>)))
            else Some (Inr a)) of
        None \<Rightarrow> None
      | Some (Inl e) \<Rightarrow> Some (Inl e)
      | Some (Inr a0) \<Rightarrow>
          (case maybe_replan env a0 of
             None \<Rightarrow> None
           | Some (Inl e) \<Rightarrow> Some (Inl e)
           | Some (Inr a1) \<Rightarrow> Some (tick_body env rnd a1)))"

definition reset :: "environment \<Rightarrow> agent \<Rightarrow> agent" where
  "reset env a =
     a\<lparr>position := start_pos env, heading := 0, total_reward := 0, steps := 0,
       planned_path := [], prev_dest_dist := None,
       epsilon := max 0.05 (epsilon a * 0.995)\<rparr>"

section \<open>Notions used in the statements\<close>

text \<open>Every row of the value table has one entry per action, as every row the code creates.\<close>

definition q_rows_ok :: "(state_key \<rightharpoonup> real list) \<Rightarrow> bool" where
  "q_rows_ok q \<longleftrightarrow> (\<forall>row \<in> ran q. length row = length actions)"

text \<open>The row stored for a state key, or the zero row of an unseen key.\<close>

definition row_or_zeros :: "(state_key \<rightharpoonup> real list) \<Rightarrow> state_key \<Rightarrow> real list" where
  "row_or_zeros q k = (case q k of None \<Rightarrow> [0, 0, 0, 0] | Some row \<Rightarrow> row)"

text \<open>
  A one-row world of three cells whose middle cell is not road: the destination
  \<open>(2, 0)\<close> cannot be reached from the start \<open>(0, 0)\<close>.
\<close>

definition gap_env :: environment where
  "gap_env = \<lparr>grid_width = 3, grid_height = 1, road_map = [[1, 0, 1]],
              start_pos = (0, 0), destination = (2, 0), obstacles = {}\<rparr>"


section \<open>Properties of the path planner\<close>

lemma reconstruct_path_no_pointer:
  "cf current = None \<Longrightarrow> reconstruct_path cf current = Some [current]"
  by (simp add: reconstruct_path_def reconstruct_loop.simps)

text \<open>
  C10: for every cell \<open>p\<close>, valid or not and in any environment, \<open>find_path(p, p)\<close>
  returns the one-element list \<open>[p]\<close>: the goal test on the popped start node comes
  before any validity check.
\<close>

theorem find_path_same_cell: "find_path env p p = Some (Inr [p])"
  by (simp add: find_path_def init_state_def heappush_def search_loop.simps
      reconstruct_path_no_pointer)

section \<open>Properties of the agent\<close>

subsection \<open>Value table update\<close>

lemma list_max_Max:
  assumes "xs \<noteq> []"
  shows "list_max xs = Inr (Max (set xs))"
proof (cases xs)
  case Nil
  then show ?thesis using assms by simp
next
  case (Cons x rest)
  then show ?thesis using Max.set_eq_fold[of x rest] by (simp add: list_max_def)
qed

lemma subscript_in_range: "0 \<le> i \<Longrightarrow> i < int (length xs) \<Longrightarrow> subscript xs i = Inr (xs ! nat i)"
  by (simp add: subscript_def)

lemma subscript_store_in_range:
  "0 \<le> i \<Longrightarrow> i < int (length xs) \<Longrightarrow> subscript_store xs i v = Inr (xs[nat i := v])"
  by (simp add: subscript_store_def)

lemma row_or_zeros_length:
  assumes "q_rows_ok q"
  shows "length (row_or_zeros q k) = 4"
proof (cases "q k")
  case None
  then show ?thesis by (simp add: row_or_zeros_def)
next
  case (Some row)
  then have "row \<in> ran q" by (rule ranI)
  with assms Some show ?thesis by (simp add: row_or_zeros_def q_rows_ok_def actions_def)
qed

lemma q_rows_ok_upd:
  assumes "q_rows_ok q" and "length row = length actions"
  shows "q_rows_ok (q(k \<mapsto> row))"
  unfolding q_rows_ok_def
proof
  fix r assume "r \<in> ran (q(k \<mapsto> row))"
  then obtain k' where k': "(q(k \<mapsto> row)) k' = Some r"
    unfolding ran_def by blast
  show "length r = length actions"
  proof (cases "k' = k")
    case True
    with k' assms(2) show ?thesis by simp
  next
    case False
    with k' have "q k' = Some r" by simp
    then have "r \<in> ran q" by (rule ranI)
    with assms(1) show ?thesis by (simp add: q_rows_ok_def)
  qed
qed

lemma update_q_table_value:
  assumes act: "0 \<le> action" "action < 4"
    and rows: "q_rows_ok (q_table a)"
  shows "update_q_table a state action reward next_state =
     Inr (a\<lparr>q_table :=
        (if (if q_table a state = None then (q_table a)(state \<mapsto> replicate (length actions) 0) else q_table a) next_state = None
         then (if q_table a state = None then (q_table a)(state \<mapsto> replicate (length actions) 0) else q_table a)
                (next_state \<mapsto> replicate (length actions) 0)
         else (if q_table a state = None then (q_table a)(state \<mapsto> replicate (length actions) 0) else q_table a))
        (state \<mapsto> (row_or_zeros (q_table a) state)[nat action :=
                 row_or_zeros (q_table a) state ! nat action + 0.1 *
                   (real_of_int reward + 0.95 * Max (set (row_or_zeros (q_table a) next_state))
                      - row_or_zeros (q_table a) state ! nat action)])\<rparr>)"
proof -
  let ?row = "row_or_zeros (q_table a) state"
  let ?nrow = "row_or_zeros (q_table a) next_state"
  let ?q1 = "if q_table a state = None then (q_table a)(state \<mapsto> replicate (length actions) 0) else q_table a"
  let ?q2 = "if ?q1 next_state = None then ?q1(next_state \<mapsto> replicate (length actions) 0) else ?q1"
  have z: "replicate (length actions) (0::real) = [0, 0, 0, 0]"
    by (simp add: actions_def numeral_eq_Suc)
  have len: "length ?row = 4" "length ?nrow = 4"
    using rows by (rule row_or_zeros_length)+
  have q2s: "?q2 state = Some ?row"
    by (auto simp: row_or_zeros_def z split: option.splits)
  have q2n: "?q2 next_state = Some ?nrow"
    by (auto simp: row_or_zeros_def z split: option.splits)
  have ne: "?nrow \<noteq> []" using len by auto
  have s1: "subscript ?row action = Inr (?row ! nat action)"
    using act len by (intro subscript_in_range) auto
  have s2: "subscript_store ?row action v = Inr (?row[nat action := v])" for v
    using act len by (intro subscript_store_in_range) auto
  show ?thesis
    unfolding update_q_table_def Let_def q2s q2n
    by (simp add: s1 s2 list_max_Max[OF ne] learning_rate_def discount_factor_def)
qed

text \<open>
  C6: for an action index in \<open>0..3\<close> and a table whose rows have four entries,
  \<open>update_q_table\<close> returns without raising and stores, for \<open>(state, action)\<close>,
  \<open>old + 0.1 * (reward + 0.95 * max_next - old)\<close>, where \<open>old\<close> is the value stored
  before (0 for an unseen state) and \<open>max_next\<close> the greatest value stored for the
  successor state (0 if unseen). Both rows exist afterwards, an absent one as four
  zeros, and no other key changes. Floats are read as real numbers.
\<close>

theorem update_q_table_rule:
  assumes act: "0 \<le> action" "action < 4"
    and rows: "q_rows_ok (q_table a)"
  shows "\<exists>a'. update_q_table a state action reward next_state = Inr a' \<and>
           q_table a' state =
             Some ((row_or_zeros (q_table a) state)
                     [nat action :=
                        row_or_zeros (q_table a) state ! nat action + 0.1 *
                          (real_of_int reward
                             + 0.95 * Max (set (row_or_zeros (q_table a) next_state))
                             - row_or_zeros (q_table a) state ! nat action)]) \<and>
           (next_state \<noteq> state \<longrightarrow>
              q_table a' next_state = Some (row_or_zeros (q_table a) next_state)) \<and>
           (\<forall>k. k \<noteq> state \<and> k \<noteq> next_state \<longrightarrow> q_table a' k = q_table a k) \<and>
           q_rows_ok (q_table a')"
proof -
  have z: "replicate (length actions) (0::real) = [0, 0, 0, 0]"
    by (simp add: actions_def numeral_eq_Suc)
  note v = update_q_table_value[OF assms, of state reward next_state]
  have len: "length (row_or_zeros (q_table a) state) = 4"
    using rows by (rule row_or_zeros_length)
  have la: "length actions = 4" by (simp add: actions_def)
  have ok: "q_rows_ok (q_table a')" if "update_q_table a state action reward next_state = Inr a'" for a'
  proof -
    have 1: "q_rows_ok (if q_table a state = None
                        then (q_table a)(state \<mapsto> replicate (length actions) 0) else q_table a)"
      using rows by (simp add: q_rows_ok_upd)
    have 2: "q_rows_ok (if (if q_table a state = None then (q_table a)(state \<mapsto> replicate (length actions) 0) else q_table a) next_state = None
         then (if q_table a state = None then (q_table a)(state \<mapsto> replicate (length actions) 0) else q_table a)
                (next_state \<mapsto> replicate (length actions) 0)
         else (if q_table a state = None then (q_table a)(state \<mapsto> replicate (length actions) 0) else q_table a))"
      using 1 by (simp add: q_rows_ok_upd)
    from that have "q_table a' = (if (if q_table a state = None then (q_table a)(state \<mapsto> replicate (length actions) 0) else q_table a) next_state = None
         then (if q_table a state = None then (q_table a)(state \<mapsto> replicate (length actions) 0) else q_table a)
                (next_state \<mapsto> replicate (length actions) 0)
         else (if q_table a state = None then (q_table a)(state \<mapsto> replicate (length actions) 0) else q_table a))
        (state \<mapsto> (row_or_zeros (q_table a) state)[nat action :=
                 row_or_zeros (q_table a) state ! nat action + 0.1 *
                   (real_of_int reward + 0.95 * Max (set (row_or_zeros (q_table a) next_state))
                      - row_or_zeros (q_table a) state ! nat action)])"
      unfolding v by auto
    then show ?thesis
      using q_rows_ok_upd[OF 2, of _ state] len la by simp
  qed
  show ?thesis
    using ok unfolding v by (auto simp: row_or_zeros_def z split: option.splits)
qed

text \<open>
  On a fresh table, with reward 10, the new value is \<open>0 + 0.1 * (10 + 0.95 * 0 - 0) = 1\<close>.
\<close>

theorem update_q_table_rule_witness:
  "(0::int) \<le> 0 \<and> (0::int) < 4 \<and> q_rows_ok (q_table (init_agent gap_env)) \<and>
   (\<exists>a'. update_q_table (init_agent gap_env) (2, 5, 0, 0) 0 10 (2, 5, 1, 0) = Inr a' \<and>
         q_table a' (2, 5, 0, 0) = Some [1, 0, 0, 0] \<and>
         q_table a' (2, 5, 1, 0) = Some [0, 0, 0, 0])"
proof -
  have ok: "q_rows_ok (q_table (init_agent gap_env))"
    by (simp add: q_rows_ok_def init_agent_def)
  from update_q_table_rule[of 0 "init_agent gap_env" "(2, 5, 0, 0)" 10 "(2, 5, 1, 0)", OF _ _ ok]
  obtain a' where
    "update_q_table (init_agent gap_env) (2, 5, 0, 0) 0 10 (2, 5, 1, 0) = Inr a'"
    "q_table a' (2, 5, 0, 0) = Some [1, 0, 0, 0]"
    "q_table a' (2, 5, 1, 0) = Some [0, 0, 0, 0]"
    by (auto simp: init_agent_def row_or_zeros_def)
  with ok show ?thesis by simp
qed

subsection \<open>Reward model\<close>









subsection \<open>Plan following\<close>








end
